theory Spec2Isabelle
  imports Complex_Main
begin

section \<open>The qpOASES adapter of qpsolvers (\<^verbatim>\<open>qpsolvers/qpoases_.py\<close>)\<close>

text \<open>
  The module holds one function, \<^verbatim>\<open>qpoases_solve_qp\<close>, which reshapes a quadratic
  program into the calling convention of the qpOASES Python binding, runs the solver and
  returns the primal solution. The binding is a native library outside the repository: it
  is a parameter of the model. Arrays are objects that the caller, the adapter and the
  binding share by reference, so they live in an explicit store.
\<close>

subsection \<open>numpy arrays\<close>

text \<open>
  Entries are doubles. The adapter copies entries and computes one product,
  \<^verbatim>\<open>-__infty * ones(k)\<close>, whose factors are \<open>-1e10\<close> and \<open>1.0\<close>: both the negation and the
  multiplication by one are exact in IEEE arithmetic, so the entries are modelled as reals.
\<close>

type_synonym vec = "real list"

text \<open>A 2-D array: numpy knows the number of columns also when there is no row.\<close>

record matrix =
  ncols :: nat
  rows :: "real list list"

text \<open>\<^verbatim>\<open>M.shape[0]\<close> of a 2-D array.\<close>

definition shape0 :: "matrix \<Rightarrow> nat" where
  "shape0 M = length (rows M)"

text \<open>
  What the adapter's own lines can raise or leave the model through:
  \<^item> \<open>ValueError\<close>: \<^verbatim>\<open>vstack\<close> of arrays whose column counts differ;
  \<^item> \<open>AttributeError\<close>: \<^verbatim>\<open>h.shape\<close> when \<^verbatim>\<open>h\<close> is \<^verbatim>\<open>None\<close>;
  \<^item> \<open>UnboundLocalError\<close>: reading a local name that no branch has assigned;
  \<^item> \<open>Object_dtype\<close>: \<^verbatim>\<open>hstack\<close> of a list holding \<^verbatim>\<open>None\<close> does not raise, it builds an array
    of dtype object, which is no vector of doubles. What the binding does with such an
    array is not part of the repository, and the model of the call ends there.
\<close>

datatype error = ValueError | AttributeError | Object_dtype | UnboundLocalError

text \<open>\<^verbatim>\<open>numpy.vstack\<close> on 2-D arrays: the rows one after the other, the column counts equal.\<close>

fun vstack :: "matrix list \<Rightarrow> error + matrix" where
  "vstack [] = Inl ValueError"
| "vstack (M # Ms) =
     (if list_all (\<lambda>N. ncols N = ncols M) Ms
      then Inr \<lparr>ncols = ncols M, rows = concat (map rows (M # Ms))\<rparr>
      else Inl ValueError)"

text \<open>\<^verbatim>\<open>numpy.hstack\<close> on 1-D arrays of doubles: concatenation.\<close>

definition hstack :: "vec list \<Rightarrow> vec" where
  "hstack vs = concat vs"

definition ones :: "nat \<Rightarrow> vec" where
  "ones k = replicate k 1"

definition zeros :: "nat \<Rightarrow> vec" where
  "zeros k = replicate k 0"

text \<open>The module constant \<^verbatim>\<open>__infty = 1e10\<close> (line 30).\<close>

definition infty :: real where
  "infty = 10 ^ 10"

text \<open>Python's \<^verbatim>\<open>x is not None\<close>.\<close>

fun is_not_None :: "'a option \<Rightarrow> bool" where
  "is_not_None None = False"
| "is_not_None (Some x) = True"

subsection \<open>The binding\<close>

text \<open>
  \<^verbatim>\<open>PyPrintLevel\<close>, \<^verbatim>\<open>PyOptions\<close> and \<^verbatim>\<open>PyReturnValue\<close> come from the binding. The module
  writes the field \<^verbatim>\<open>printLevel\<close> of an options object and compares a return value with
  \<^verbatim>\<open>MAX_NWSR_REACHED\<close>; every other setting and every other return code is kept opaque.
\<close>

datatype PrintLevel = NONE | Other_level nat

record Options =
  printLevel :: PrintLevel
  other_settings :: nat

datatype ReturnValue = SUCCESSFUL_RETURN | MAX_NWSR_REACHED | Other_return nat

text \<open>
  The calls the adapter makes on a solver object, with the values the arrays hold when
  they are passed (\<^verbatim>\<open>None\<close> for an absent bound). \<open>init\<close> is \<^verbatim>\<open>QProblem.init\<close>
  (\<^verbatim>\<open>H, g, A, lb, ub, lbA, ubA, nWSR\<close>) and \<open>init_B\<close> is \<^verbatim>\<open>QProblemB.init\<close>
  (\<^verbatim>\<open>H, g, lb, ub, nWSR\<close>).
\<close>

datatype call =
    QProblem nat nat
  | QProblemB nat
  | setOptions Options
  | init matrix vec matrix "vec option" "vec option" "vec option" "vec option" int
  | init_B matrix vec "vec option" "vec option" int
  | getPrimalSolution vec

text \<open>
  A solver object is the history of the calls made on it, the constructor first. The
  library answers from the history: \<open>init_returns\<close> gives the return value of the
  \<^verbatim>\<open>init\<close> call that ends the history and the number it writes into the cell
  \<^verbatim>\<open>nWSR\<close>; \<open>primal\<close> gives what \<^verbatim>\<open>getPrimalSolution\<close> leaves in the buffer it was
  handed. Any deterministic solver is such a pair of functions.
\<close>

record qpOASES =
  init_returns :: "call list \<Rightarrow> ReturnValue \<times> int"
  primal :: "call list \<Rightarrow> vec"

subsection \<open>The store and the module state\<close>

text \<open>
  Arrays by address: 2-D arrays of doubles, 1-D arrays of doubles and 1-D arrays of
  integers. Every address from \<open>brk\<close> on is free; an array that exists before a call has
  an address below \<open>brk\<close>. \<open>options\<close> is the module's global of that name.
\<close>

record world =
  arr2 :: "nat \<Rightarrow> matrix"
  arr1 :: "nat \<Rightarrow> vec"
  iarr :: "nat \<Rightarrow> int list"
  brk :: nat
  options :: Options

definition new_arr2 :: "matrix \<Rightarrow> world \<Rightarrow> nat \<times> world" where
  "new_arr2 M w = (brk w, w\<lparr>arr2 := (arr2 w)(brk w := M), brk := Suc (brk w)\<rparr>)"

definition new_arr1 :: "vec \<Rightarrow> world \<Rightarrow> nat \<times> world" where
  "new_arr1 v w = (brk w, w\<lparr>arr1 := (arr1 w)(brk w := v), brk := Suc (brk w)\<rparr>)"

definition new_iarr :: "int list \<Rightarrow> world \<Rightarrow> nat \<times> world" where
  "new_iarr k w = (brk w, w\<lparr>iarr := (iarr w)(brk w := k), brk := Suc (brk w)\<rparr>)"

text \<open>
  Lines 30 to 32, run once when the module is imported: \<open>dflt\<close> is what the binding's
  \<^verbatim>\<open>Options()\<close> constructs.
\<close>

definition module_init :: "Options \<Rightarrow> world \<Rightarrow> world" where
  "module_init dflt w = w\<lparr>options := dflt\<lparr>printLevel := NONE\<rparr>\<rparr>"

subsection \<open>The adapter\<close>

text \<open>
  The two messages handed to \<^verbatim>\<open>warnings.warn\<close>: line 85,
  \<^verbatim>\<open>"[qpsolvers] warm-start values ignored by qpOASES wrapper"\<close>, and line 107,
  \<^verbatim>\<open>"qpOASES reached the maximum number of WSR (%d)" % nb_wsr[0]\<close>, with the number.
\<close>

datatype warning = Warm_start_ignored | Max_WSR_reached int

text \<open>
  Lines 90 to 101: the names \<^verbatim>\<open>C\<close>, \<^verbatim>\<open>lb_C\<close>, \<^verbatim>\<open>ub_C\<close> as addresses. With neither
  \<^verbatim>\<open>G\<close> nor \<^verbatim>\<open>A\<close> no branch is taken and the names stay unbound (\<open>None\<close> for the
  triple). \<^verbatim>\<open>C = G\<close>, \<^verbatim>\<open>ub_C = h\<close> and \<^verbatim>\<open>lb_C = h\<close> bind a name to the caller's object;
  \<^verbatim>\<open>vstack\<close> and \<^verbatim>\<open>hstack\<close> build new arrays.
\<close>

type_synonym block = "nat \<times> nat option \<times> nat option"

fun unified_block ::
  "world \<Rightarrow> nat option \<Rightarrow> nat option \<Rightarrow> nat option \<Rightarrow> nat option
    \<Rightarrow> error + (block option \<times> world)" where
  "unified_block w (Some G) h None b = Inr (Some (G, None, h), w)"
| "unified_block w None h (Some A) b =
     (case vstack [arr2 w A, arr2 w A] of
        Inl e \<Rightarrow> Inl e
      | Inr AA \<Rightarrow> (let (C, w1) = new_arr2 AA w in Inr (Some (C, h, h), w1)))"
| "unified_block w (Some G) h (Some A) b =
     (case vstack [arr2 w G, arr2 w A, arr2 w A] of
        Inl e \<Rightarrow> Inl e
      | Inr GAA \<Rightarrow>
          (let (C, w1) = new_arr2 GAA w in
           case h of
             None \<Rightarrow> Inl AttributeError
           | Some h' \<Rightarrow>
               (case b of
                  None \<Rightarrow> Inl Object_dtype
                | Some b' \<Rightarrow>
                    (let (lb_C, w2) =
                       new_arr1 (hstack [map (\<lambda>x. - infty * x) (ones (length (arr1 w1 h'))),
                                         arr1 w1 b']) w1;
                         (ub_C, w3) = new_arr1 (hstack [arr1 w2 h', arr1 w2 b']) w2
                     in Inr (Some (C, Some lb_C, Some ub_C), w3)))))"
| "unified_block w None h None b = Inr (None, w)"

text \<open>
  What a call leaves behind: what it returned or raised (\<open>Inr (Some x)\<close> is the array at
  address \<open>x\<close>, \<open>Inr None\<close> would be Python's \<^verbatim>\<open>None\<close>, which the docstring promises when no
  solution is found), the warnings it emitted in order, the history of the solver object
  it built, and the world after it.
\<close>

record outcome =
  returned :: "error + nat option"
  warned :: "warning list"
  qp :: "call list"
  after :: world

text \<open>
  Lines 112 to 114: a new buffer of \<open>n\<close> zeros, which \<^verbatim>\<open>getPrimalSolution\<close> fills, is
  returned. \<open>qp3\<close> is the solver object after \<^verbatim>\<open>init\<close>, \<open>ws\<close> the warnings so far.
\<close>

definition primal_solution ::
  "qpOASES \<Rightarrow> nat \<Rightarrow> call list \<Rightarrow> warning list \<Rightarrow> world \<Rightarrow> outcome" where
  "primal_solution lib n qp3 ws w3 =
    (let (x_opt, w4) = new_arr1 (zeros n) w3;
         qp4 = qp3 @ [getPrimalSolution (arr1 w4 x_opt)];
         w5 = w4\<lparr>arr1 := (arr1 w4)(x_opt := primal lib qp4)\<rparr>
     in \<lparr>returned = Inr (Some x_opt), warned = ws, qp = qp4, after = w5\<rparr>)"

text \<open>
  Lines 84 to 114. The arguments are addresses; \<^verbatim>\<open>G\<close>, \<^verbatim>\<open>h\<close>, \<^verbatim>\<open>A\<close>, \<^verbatim>\<open>b\<close> and
  \<^verbatim>\<open>initvals\<close> default to \<^verbatim>\<open>None\<close>. The binding reads the arrays it is passed, writes the
  cell \<^verbatim>\<open>nb_wsr\<close> in \<^verbatim>\<open>init\<close> and the buffer \<^verbatim>\<open>x_opt\<close> in \<^verbatim>\<open>getPrimalSolution\<close>.
  Reading \<^verbatim>\<open>C\<close> while it is unbound would raise \<open>UnboundLocalError\<close>.
\<close>

definition qpoases_solve_qp ::
  "qpOASES \<Rightarrow> world \<Rightarrow> nat \<Rightarrow> nat \<Rightarrow> nat option \<Rightarrow> nat option \<Rightarrow> nat option \<Rightarrow> nat option
    \<Rightarrow> nat option \<Rightarrow> outcome" where
  "qpoases_solve_qp lib w P q G h A b initvals =
    (let ws = (if is_not_None initvals then [Warm_start_ignored] else []);
         n = shape0 (arr2 w P);
         lb = None;
         ub = None;
         (nb_wsr, w1) = new_iarr [100] w;
         has_cons = (is_not_None G \<or> is_not_None A)
     in case unified_block w1 G h A b of
          Inl e \<Rightarrow> \<lparr>returned = Inl e, warned = ws, qp = [], after = w1\<rparr>
        | Inr (blk, w2) \<Rightarrow>
            if has_cons then
              (case blk of
                 None \<Rightarrow> \<lparr>returned = Inl UnboundLocalError, warned = ws, qp = [], after = w2\<rparr>
               | Some (C, lb_C, ub_C) \<Rightarrow>
                   (let qp1 = [QProblem n (shape0 (arr2 w2 C))];
                        qp2 = qp1 @ [setOptions (options w2)];
                        qp3 = qp2 @ [init (arr2 w2 P) (arr1 w2 q) (arr2 w2 C) lb ub
                                       (map_option (arr1 w2) lb_C) (map_option (arr1 w2) ub_C)
                                       (iarr w2 nb_wsr ! 0)];
                        (return_value, k) = init_returns lib qp3;
                        w3 = w2\<lparr>iarr := (iarr w2)(nb_wsr := (iarr w2 nb_wsr)[0 := k])\<rparr>;
                        ws3 = (if return_value = MAX_NWSR_REACHED
                               then ws @ [Max_WSR_reached (iarr w3 nb_wsr ! 0)] else ws)
                    in primal_solution lib n qp3 ws3 w3))
            else
              (let qp1 = [QProblemB n];
                   qp2 = qp1 @ [setOptions (options w2)];
                   qp3 = qp2 @ [init_B (arr2 w2 P) (arr1 w2 q) lb ub (iarr w2 nb_wsr ! 0)];
                   (return_value, k) = init_returns lib qp3;
                   w3 = w2\<lparr>iarr := (iarr w2)(nb_wsr := (iarr w2 nb_wsr)[0 := k])\<rparr>
               in primal_solution lib n qp3 ws w3))"

subsection \<open>Callers and the module over time\<close>

text \<open>An argument is an object that exists when the call is made.\<close>

definition live :: "world \<Rightarrow> nat \<Rightarrow> bool" where
  "live w x = (x < brk w)"

text \<open>
  The worlds a program can be in once the module is imported: the import runs lines 30
  to 32, after which the adapter is called any number of times, with any arguments and
  any answers of the library, and between the calls the caller builds and changes arrays
  as it likes. Nothing else in the module assigns \<^verbatim>\<open>options\<close>.
\<close>

inductive reachable :: "Options \<Rightarrow> world \<Rightarrow> bool" for dflt :: Options where
  imported: "reachable dflt (module_init dflt w)"
| called: "reachable dflt w \<Longrightarrow>
    reachable dflt (after (qpoases_solve_qp lib w P q G h A b initvals))"
| caller: "reachable dflt w \<Longrightarrow>
    reachable dflt (w\<lparr>arr2 := m, arr1 := v, iarr := i, brk := k\<rparr>)"

subsection \<open>Concrete problems\<close>

text \<open>
  A world after the import, with these arrays: at 0 the identity \<open>P\<close> and at 1 the zero
  \<open>q\<close> of a problem in two variables; at 2 and 3 the equality \<open>x + y = 1\<close>; at 4 and 5
  the inequalities \<open>-x \<le> 0\<close>, \<open>-y \<le> 0\<close>; at 6 a warm-start guess; at 7 and 8 the
  inequalities \<open>x \<le> -1\<close> and \<open>-x \<le> -1\<close>, which no point satisfies.
\<close>

definition example_world :: world where
  "example_world = module_init \<lparr>printLevel = Other_level 2, other_settings = 0\<rparr>
     \<lparr>arr2 = (\<lambda>_. \<lparr>ncols = 0, rows = []\<rparr>)
               (0 := \<lparr>ncols = 2, rows = [[1, 0], [0, 1]]\<rparr>,
                2 := \<lparr>ncols = 2, rows = [[1, 1]]\<rparr>,
                4 := \<lparr>ncols = 2, rows = [[- 1, 0], [0, - 1]]\<rparr>,
                7 := \<lparr>ncols = 2, rows = [[1, 0], [- 1, 0]]\<rparr>),
      arr1 = (\<lambda>_. [])(1 := [0, 0], 3 := [1], 5 := [0, 0], 6 := [1, 1], 8 := [- 1, - 1]),
      iarr = (\<lambda>_. []),
      brk = 9,
      options = \<lparr>printLevel = Other_level 2, other_settings = 0\<rparr>\<rparr>"

text \<open>The buffer a history's last call handed over.\<close>

fun buffer :: "call list \<Rightarrow> vec" where
  "buffer [] = []"
| "buffer [getPrimalSolution x] = x"
| "buffer [c] = []"
| "buffer (c # cs) = buffer cs"

text \<open>
  Three libraries: one whose \<^verbatim>\<open>init\<close> succeeds after 3 recalculations, one whose
  \<^verbatim>\<open>init\<close> fails with a code other than \<^verbatim>\<open>MAX_NWSR_REACHED\<close>, and one that stops at
  the cap. The first puts the point \<open>(1/2, 1/2)\<close> into the buffer; the other two leave
  the buffer as they got it.
\<close>

definition solving_lib :: qpOASES where
  "solving_lib = \<lparr>init_returns = (\<lambda>_. (SUCCESSFUL_RETURN, 3)), primal = (\<lambda>_. [1 / 2, 1 / 2])\<rparr>"

definition failing_lib :: qpOASES where
  "failing_lib = \<lparr>init_returns = (\<lambda>_. (Other_return 33, 0)), primal = buffer\<rparr>"

definition capped_lib :: qpOASES where
  "capped_lib = \<lparr>init_returns = (\<lambda>_. (MAX_NWSR_REACHED, 100)), primal = buffer\<rparr>"

section \<open>Properties\<close>

subsection \<open>The calls made on the solver, by configuration\<close>

lemmas adapter_defs = qpoases_solve_qp_def primal_solution_def Let_def
  new_iarr_def new_arr1_def new_arr2_def

lemma qp_inequality_only:
  "qp (qpoases_solve_qp lib w P q (Some g) h None b iv) =
     [QProblem (shape0 (arr2 w P)) (shape0 (arr2 w g)), setOptions (options w),
      init (arr2 w P) (arr1 w q) (arr2 w g) None None None (map_option (arr1 w) h) 100,
      getPrimalSolution (zeros (shape0 (arr2 w P)))]"
  by (simp add: adapter_defs split: prod.splits)

lemma arr2_inequality_only:
  "arr2 (after (qpoases_solve_qp lib w P q (Some g) h None b iv)) = arr2 w"
  by (simp add: adapter_defs split: prod.splits)

lemma qp_neither:
  "qp (qpoases_solve_qp lib w P q None h None b iv) =
     [QProblemB (shape0 (arr2 w P)), setOptions (options w),
      init_B (arr2 w P) (arr1 w q) None None 100,
      getPrimalSolution (zeros (shape0 (arr2 w P)))]"
  by (simp add: adapter_defs split: prod.splits)

lemma arr2_neither:
  "arr2 (after (qpoases_solve_qp lib w P q None h None b iv)) = arr2 w"
  by (simp add: adapter_defs split: prod.splits)

lemma qp_both:
  assumes "live w P" "live w q" "live w g" "live w a" "live w hv" "live w bv"
    and "ncols (arr2 w a) = ncols (arr2 w g)"
  shows "qp (qpoases_solve_qp lib w P q (Some g) (Some hv) (Some a) (Some bv) iv) =
     [QProblem (shape0 (arr2 w P)) (shape0 (arr2 w g) + 2 * shape0 (arr2 w a)),
      setOptions (options w),
      init (arr2 w P) (arr1 w q)
        \<lparr>ncols = ncols (arr2 w g),
         rows = rows (arr2 w g) @ rows (arr2 w a) @ rows (arr2 w a)\<rparr>
        None None
        (Some (replicate (length (arr1 w hv)) (- (10 ^ 10)) @ arr1 w bv))
        (Some (arr1 w hv @ arr1 w bv)) 100,
      getPrimalSolution (zeros (shape0 (arr2 w P)))]"
  using assms
  by (simp add: adapter_defs live_def shape0_def hstack_def ones_def infty_def
      map_replicate_const split: prod.splits)

lemma qp_constrained:
  assumes "is_not_None G \<or> is_not_None A" "live w P" "live w q"
    and "returned (qpoases_solve_qp lib w P q G h A b iv) = Inr r"
  shows "\<exists>C lb_C ub_C. qp (qpoases_solve_qp lib w P q G h A b iv) =
     [QProblem (shape0 (arr2 w P)) (shape0 C), setOptions (options w),
      init (arr2 w P) (arr1 w q) C None None lb_C ub_C 100,
      getPrimalSolution (zeros (shape0 (arr2 w P)))]"
  using assms
  by (cases "(w, G, h, A, b)" rule: unified_block.cases)
     (auto simp: adapter_defs live_def split: sum.splits option.splits prod.splits if_splits)

subsection \<open>What a call leaves unchanged\<close>

lemma unified_block_frame:
  assumes "unified_block w G h A b = Inr (blk, w')"
  shows "options w' = options w \<and> iarr w' = iarr w \<and> brk w \<le> brk w' \<and>
         (\<forall>x. x < brk w \<longrightarrow> arr2 w' x = arr2 w x \<and> arr1 w' x = arr1 w x)"
  using assms
  by (cases "(w, G, h, A, b)" rule: unified_block.cases)
     (auto simp: new_arr1_def new_arr2_def Let_def
       split: sum.splits option.splits prod.splits if_splits)

text \<open>The names \<^verbatim>\<open>C\<close>, \<^verbatim>\<open>lb_C\<close>, \<^verbatim>\<open>ub_C\<close> are bound whenever line 103 reads them.\<close>

lemma never_unbound:
  "returned (qpoases_solve_qp lib w P q G h A b iv) \<noteq> Inl UnboundLocalError"
  by (cases "(w, G, h, A, b)" rule: unified_block.cases)
     (auto simp: adapter_defs split: sum.splits option.splits prod.splits if_splits)

text \<open>No path of the function returns \<^verbatim>\<open>None\<close>.\<close>

lemma never_returns_None:
  "returned (qpoases_solve_qp lib w P q G h A b iv) \<noteq> Inr None"
  by (cases "(w, G, h, A, b)" rule: unified_block.cases)
     (auto simp: adapter_defs split: sum.splits option.splits prod.splits if_splits)

lemma options_after:
  "options (after (qpoases_solve_qp lib w P q G h A b iv)) = options w"
proof (cases "unified_block (snd (new_iarr [100] w)) G h A b")
  case (Inl e)
  then show ?thesis by (simp add: adapter_defs split: prod.splits)
next
  case (Inr r)
  obtain blk w2 where r: "r = (blk, w2)" by (cases r)
  from unified_block_frame [OF Inr [unfolded r]]
  have "options w2 = options w" by (simp add: new_iarr_def)
  with Inr r show ?thesis
    by (simp add: adapter_defs split: prod.splits option.splits)
qed

lemma reachable_options:
  "reachable dflt w \<Longrightarrow> options w = dflt\<lparr>printLevel := NONE\<rparr>"
  by (induction rule: reachable.induct) (simp_all add: module_init_def options_after)

lemma frame_after:
  assumes "x < brk w"
  shows "arr2 (after (qpoases_solve_qp lib w P q G h A b iv)) x = arr2 w x \<and>
         arr1 (after (qpoases_solve_qp lib w P q G h A b iv)) x = arr1 w x \<and>
         iarr (after (qpoases_solve_qp lib w P q G h A b iv)) x = iarr w x"
proof (cases "unified_block (snd (new_iarr [100] w)) G h A b")
  case (Inl e)
  then show ?thesis using assms by (simp add: adapter_defs split: prod.splits)
next
  case (Inr r)
  obtain blk w2 where r: "r = (blk, w2)" by (cases r)
  from unified_block_frame [OF Inr [unfolded r]] assms
  have "iarr w2 = (iarr w)(brk w := [100])" "Suc (brk w) \<le> brk w2"
       "arr2 w2 x = arr2 w x" "arr1 w2 x = arr1 w x"
    by (simp_all add: new_iarr_def)
  with Inr r assms show ?thesis
    by (simp add: adapter_defs split: prod.splits option.splits)
qed

lemma setOptions_in_qp:
  assumes "setOptions opt \<in> set (qp (qpoases_solve_qp lib w P q G h A b iv))"
  shows "opt = options w"
proof (cases "unified_block (snd (new_iarr [100] w)) G h A b")
  case (Inl e)
  then show ?thesis using assms by (simp add: adapter_defs split: prod.splits)
next
  case (Inr r)
  obtain blk w2 where r: "r = (blk, w2)" by (cases r)
  from unified_block_frame [OF Inr [unfolded r]]
  have "options w2 = options w" by (simp add: new_iarr_def)
  with Inr r assms show ?thesis
    by (auto simp: adapter_defs split: prod.splits option.splits if_splits)
qed

lemma qp_shape:
  assumes "returned (qpoases_solve_qp lib w P q G h A b iv) = Inr r"
  shows "(\<exists>m Pv qv C lb_C ub_C buf. qp (qpoases_solve_qp lib w P q G h A b iv) =
            [QProblem (shape0 (arr2 w P)) m, setOptions (options w),
             init Pv qv C None None lb_C ub_C 100, getPrimalSolution buf])
       \<or> (\<exists>Pv qv buf. qp (qpoases_solve_qp lib w P q G h A b iv) =
            [QProblemB (shape0 (arr2 w P)), setOptions (options w),
             init_B Pv qv None None 100, getPrimalSolution buf])"
proof (cases "unified_block (snd (new_iarr [100] w)) G h A b")
  case (Inl e)
  then show ?thesis using assms by (simp add: adapter_defs split: prod.splits)
next
  case (Inr r')
  obtain blk w2 where r: "r' = (blk, w2)" by (cases r')
  from unified_block_frame [OF Inr [unfolded r]]
  have "options w2 = options w" "iarr w2 = (iarr w)(brk w := [100])"
    by (simp_all add: new_iarr_def)
  with Inr r assms show ?thesis
    by (auto simp: adapter_defs split: prod.splits option.splits if_splits)
qed

section \<open>The claims\<close>

subsection \<open>Inequality only\<close>

text \<open>
  C9. With \<open>G\<close> and \<open>h\<close> given and \<open>A\<close> and \<open>b\<close> absent, the constraint block handed to
  the solver is \<open>G\<close> itself (the caller's array, no 2-D array is built), the lower
  constraint bound is absent and the upper constraint bound is \<open>h\<close>.
\<close>

theorem inequality_only_block:
  "qp (qpoases_solve_qp lib w P q (Some g) (Some hv) None None iv) =
     [QProblem (shape0 (arr2 w P)) (shape0 (arr2 w g)), setOptions (options w),
      init (arr2 w P) (arr1 w q) (arr2 w g) None None None (Some (arr1 w hv)) 100,
      getPrimalSolution (zeros (shape0 (arr2 w P)))]
   \<and> arr2 (after (qpoases_solve_qp lib w P q (Some g) (Some hv) None None iv)) = arr2 w"
  by (simp add: qp_inequality_only arr2_inequality_only)

theorem inequality_only_block_witness:
  "qp (qpoases_solve_qp solving_lib example_world 0 1 (Some 4) (Some 5) None None None) =
     [QProblem 2 2, setOptions \<lparr>printLevel = NONE, other_settings = 0\<rparr>,
      init \<lparr>ncols = 2, rows = [[1, 0], [0, 1]]\<rparr> [0, 0]
        \<lparr>ncols = 2, rows = [[- 1, 0], [0, - 1]]\<rparr> None None None (Some [0, 0]) 100,
      getPrimalSolution [0, 0]]"
  using inequality_only_block [of solving_lib example_world 0 1 4 5 None]
  by (simp add: example_world_def module_init_def shape0_def zeros_def)

subsection \<open>Equality only\<close>

text \<open>
  C1. With \<open>A\<close> and \<open>b\<close> given and \<open>G\<close> and \<open>h\<close> absent, the block is \<open>A\<close> stacked
  twice, and both constraint bounds should be \<open>b\<close>. Lines 96 and 97 bind the bounds to
  \<open>h\<close>, which is absent: for \<open>x + y = 1\<close> the solver receives the block \<open>[A; A]\<close> with no
  lower and no upper constraint bound, and \<open>b = [1]\<close> is passed nowhere.
\<close>

theorem equality_only_bounds_are_h:
  "qp (qpoases_solve_qp solving_lib example_world 0 1 None None (Some 2) (Some 3) None) =
     [QProblem 2 2, setOptions \<lparr>printLevel = NONE, other_settings = 0\<rparr>,
      init \<lparr>ncols = 2, rows = [[1, 0], [0, 1]]\<rparr> [0, 0]
        \<lparr>ncols = 2, rows = [[1, 1], [1, 1]]\<rparr> None None None None 100,
      getPrimalSolution [0, 0]]
   \<and> arr1 example_world 3 = [1]"
  by (simp add: adapter_defs example_world_def module_init_def shape0_def zeros_def
      solving_lib_def)

subsection \<open>Inequalities and equalities\<close>

text \<open>
  C3. With \<open>G\<close> (\<open>m\<close> rows), \<open>h\<close> (of length \<open>m\<close>), \<open>A\<close> (\<open>meq\<close> rows, as many columns as
  \<open>G\<close>) and \<open>b\<close> given, the block handed to the solver has the rows of \<open>G\<close>, then those of
  \<open>A\<close> twice, \<open>m + 2 * meq\<close> rows in all; the upper bound is \<open>h\<close> followed by \<open>b\<close>; the
  lower bound is \<open>m\<close> entries \<open>-1e10\<close> followed by \<open>b\<close>.
\<close>

theorem both_block_bounds:
  assumes "live w P" "live w q" "live w g" "live w a" "live w hv" "live w bv"
    and "ncols (arr2 w a) = ncols (arr2 w g)"
    and "length (arr1 w hv) = shape0 (arr2 w g)"
  shows "\<exists>C lb_C ub_C.
     qp (qpoases_solve_qp lib w P q (Some g) (Some hv) (Some a) (Some bv) iv) =
       [QProblem (shape0 (arr2 w P)) (shape0 C), setOptions (options w),
        init (arr2 w P) (arr1 w q) C None None (Some lb_C) (Some ub_C) 100,
        getPrimalSolution (zeros (shape0 (arr2 w P)))]
     \<and> rows C = rows (arr2 w g) @ rows (arr2 w a) @ rows (arr2 w a)
     \<and> shape0 C = shape0 (arr2 w g) + 2 * shape0 (arr2 w a)
     \<and> take (shape0 (arr2 w g)) ub_C = arr1 w hv
     \<and> drop (shape0 (arr2 w g)) ub_C = arr1 w bv
     \<and> take (shape0 (arr2 w g)) lb_C = replicate (shape0 (arr2 w g)) (- (10 ^ 10))
     \<and> drop (shape0 (arr2 w g)) lb_C = arr1 w bv"
proof -
  let ?C = "\<lparr>ncols = ncols (arr2 w g),
             rows = rows (arr2 w g) @ rows (arr2 w a) @ rows (arr2 w a)\<rparr>"
  let ?lb = "replicate (length (arr1 w hv)) (- (10 ^ 10)) @ arr1 w bv"
  let ?ub = "arr1 w hv @ arr1 w bv"
  have rows: "shape0 ?C = shape0 (arr2 w g) + 2 * shape0 (arr2 w a)"
    by (simp add: shape0_def)
  have "qp (qpoases_solve_qp lib w P q (Some g) (Some hv) (Some a) (Some bv) iv) =
       [QProblem (shape0 (arr2 w P)) (shape0 ?C), setOptions (options w),
        init (arr2 w P) (arr1 w q) ?C None None (Some ?lb) (Some ?ub) 100,
        getPrimalSolution (zeros (shape0 (arr2 w P)))]"
    using qp_both [OF assms(1-7)] rows by simp
  moreover have "take (shape0 (arr2 w g)) ?ub = arr1 w hv"
    "drop (shape0 (arr2 w g)) ?ub = arr1 w bv"
    "take (shape0 (arr2 w g)) ?lb = replicate (shape0 (arr2 w g)) (- (10 ^ 10))"
    "drop (shape0 (arr2 w g)) ?lb = arr1 w bv"
    using assms(8) by simp_all
  ultimately show ?thesis using rows by (intro exI [of _ ?C] exI [of _ ?lb] exI [of _ ?ub]) simp
qed

theorem both_block_bounds_witness:
  "live example_world 0 \<and> live example_world 1 \<and> live example_world 4 \<and> live example_world 2
   \<and> live example_world 5 \<and> live example_world 3
   \<and> ncols (arr2 example_world 2) = ncols (arr2 example_world 4)
   \<and> length (arr1 example_world 5) = shape0 (arr2 example_world 4)
   \<and> (\<exists>C lb_C ub_C.
       qp (qpoases_solve_qp solving_lib example_world 0 1 (Some 4) (Some 5) (Some 2) (Some 3)
             None) =
         [QProblem 2 (shape0 C), setOptions \<lparr>printLevel = NONE, other_settings = 0\<rparr>,
          init \<lparr>ncols = 2, rows = [[1, 0], [0, 1]]\<rparr> [0, 0] C None None
            (Some lb_C) (Some ub_C) 100,
          getPrimalSolution [0, 0]]
       \<and> rows C = [[- 1, 0], [0, - 1], [1, 1], [1, 1]]
       \<and> shape0 C = 4
       \<and> take 2 ub_C = [0, 0] \<and> drop 2 ub_C = [1]
       \<and> take 2 lb_C = [- (10 ^ 10), - (10 ^ 10)] \<and> drop 2 lb_C = [1])"
proof -
  have h: "live example_world 0" "live example_world 1" "live example_world 4"
    "live example_world 2" "live example_world 5" "live example_world 3"
    "ncols (arr2 example_world 2) = ncols (arr2 example_world 4)"
    "length (arr1 example_world 5) = shape0 (arr2 example_world 4)"
    by (simp_all add: example_world_def module_init_def live_def shape0_def)
  have v: "arr2 example_world 0 = \<lparr>ncols = 2, rows = [[1, 0], [0, 1]]\<rparr>"
    "arr2 example_world 4 = \<lparr>ncols = 2, rows = [[- 1, 0], [0, - 1]]\<rparr>"
    "arr2 example_world 2 = \<lparr>ncols = 2, rows = [[1, 1]]\<rparr>"
    "arr1 example_world (Suc 0) = [0, 0]" "arr1 example_world 5 = [0, 0]"
    "arr1 example_world 3 = [1]"
    "options example_world = \<lparr>printLevel = NONE, other_settings = 0\<rparr>"
    by (simp_all add: example_world_def module_init_def)
  have z: "zeros 2 = [0, 0]" "\<And>x :: real. replicate 2 x = [x, x]"
    by (simp_all add: zeros_def numeral_2_eq_2)
  have s: "shape0 (arr2 example_world 0) = 2" "shape0 (arr2 example_world 4) = 2"
    "shape0 (arr2 example_world 2) = 1"
    by (simp_all add: v shape0_def)
  have "\<exists>C lb_C ub_C.
       qp (qpoases_solve_qp solving_lib example_world 0 1 (Some 4) (Some 5) (Some 2) (Some 3)
             None) =
         [QProblem 2 (shape0 C), setOptions \<lparr>printLevel = NONE, other_settings = 0\<rparr>,
          init \<lparr>ncols = 2, rows = [[1, 0], [0, 1]]\<rparr> [0, 0] C None None
            (Some lb_C) (Some ub_C) 100,
          getPrimalSolution [0, 0]]
       \<and> rows C = [[- 1, 0], [0, - 1], [1, 1], [1, 1]]
       \<and> shape0 C = 4
       \<and> take 2 ub_C = [0, 0] \<and> drop 2 ub_C = [1]
       \<and> take 2 lb_C = [- (10 ^ 10), - (10 ^ 10)] \<and> drop 2 lb_C = [1]"
    using both_block_bounds [OF h, of solving_lib None, unfolded s]
    by (simp add: v z)
  with h show ?thesis by blast
qed

text \<open>
  C5. In the same configuration, with \<open>b\<close> of length \<open>meq\<close>, each bound vector has
  \<open>m + meq\<close> entries while the block has \<open>m + 2 * meq\<close> rows: the rows of the block that
  lie beyond the bound vectors are the second copy of \<open>A\<close>.
\<close>

theorem both_bounds_shorter_than_block:
  assumes "live w P" "live w q" "live w g" "live w a" "live w hv" "live w bv"
    and "ncols (arr2 w a) = ncols (arr2 w g)"
    and "length (arr1 w hv) = shape0 (arr2 w g)"
    and "length (arr1 w bv) = shape0 (arr2 w a)"
  shows "\<exists>C lb_C ub_C.
     qp (qpoases_solve_qp lib w P q (Some g) (Some hv) (Some a) (Some bv) iv) =
       [QProblem (shape0 (arr2 w P)) (shape0 C), setOptions (options w),
        init (arr2 w P) (arr1 w q) C None None (Some lb_C) (Some ub_C) 100,
        getPrimalSolution (zeros (shape0 (arr2 w P)))]
     \<and> shape0 C = shape0 (arr2 w g) + 2 * shape0 (arr2 w a)
     \<and> length lb_C = shape0 (arr2 w g) + shape0 (arr2 w a)
     \<and> length ub_C = shape0 (arr2 w g) + shape0 (arr2 w a)
     \<and> drop (length lb_C) (rows C) = rows (arr2 w a)
     \<and> drop (length ub_C) (rows C) = rows (arr2 w a)"
proof -
  let ?C = "\<lparr>ncols = ncols (arr2 w g),
             rows = rows (arr2 w g) @ rows (arr2 w a) @ rows (arr2 w a)\<rparr>"
  let ?lb = "replicate (length (arr1 w hv)) (- (10 ^ 10)) @ arr1 w bv"
  let ?ub = "arr1 w hv @ arr1 w bv"
  have rows: "shape0 ?C = shape0 (arr2 w g) + 2 * shape0 (arr2 w a)"
    by (simp add: shape0_def)
  have "qp (qpoases_solve_qp lib w P q (Some g) (Some hv) (Some a) (Some bv) iv) =
       [QProblem (shape0 (arr2 w P)) (shape0 ?C), setOptions (options w),
        init (arr2 w P) (arr1 w q) ?C None None (Some ?lb) (Some ?ub) 100,
        getPrimalSolution (zeros (shape0 (arr2 w P)))]"
    using qp_both [OF assms(1-7)] rows by simp
  moreover have "length ?lb = shape0 (arr2 w g) + shape0 (arr2 w a)"
    "length ?ub = shape0 (arr2 w g) + shape0 (arr2 w a)"
    using assms(8,9) by simp_all
  moreover have "drop (shape0 (arr2 w g) + shape0 (arr2 w a)) (rows ?C) = rows (arr2 w a)"
    by (simp add: shape0_def)
  ultimately show ?thesis
    using rows by (intro exI [of _ ?C] exI [of _ ?lb] exI [of _ ?ub]) simp
qed

theorem both_bounds_shorter_than_block_witness:
  "live example_world 0 \<and> live example_world 1 \<and> live example_world 4 \<and> live example_world 2
   \<and> live example_world 5 \<and> live example_world 3
   \<and> ncols (arr2 example_world 2) = ncols (arr2 example_world 4)
   \<and> length (arr1 example_world 5) = shape0 (arr2 example_world 4)
   \<and> length (arr1 example_world 3) = shape0 (arr2 example_world 2)
   \<and> (\<exists>C lb_C ub_C.
       qp (qpoases_solve_qp solving_lib example_world 0 1 (Some 4) (Some 5) (Some 2) (Some 3)
             None) =
         [QProblem 2 (shape0 C), setOptions \<lparr>printLevel = NONE, other_settings = 0\<rparr>,
          init \<lparr>ncols = 2, rows = [[1, 0], [0, 1]]\<rparr> [0, 0] C None None
            (Some lb_C) (Some ub_C) 100,
          getPrimalSolution [0, 0]]
       \<and> shape0 C = 4 \<and> length lb_C = 3 \<and> length ub_C = 3
       \<and> drop (length lb_C) (rows C) = [[1, 1]]
       \<and> drop (length ub_C) (rows C) = [[1, 1]])"
proof -
  have h: "live example_world 0" "live example_world 1" "live example_world 4"
    "live example_world 2" "live example_world 5" "live example_world 3"
    "ncols (arr2 example_world 2) = ncols (arr2 example_world 4)"
    "length (arr1 example_world 5) = shape0 (arr2 example_world 4)"
    "length (arr1 example_world 3) = shape0 (arr2 example_world 2)"
    by (simp_all add: example_world_def module_init_def live_def shape0_def)
  have v: "arr2 example_world 0 = \<lparr>ncols = 2, rows = [[1, 0], [0, 1]]\<rparr>"
    "arr2 example_world 4 = \<lparr>ncols = 2, rows = [[- 1, 0], [0, - 1]]\<rparr>"
    "arr2 example_world 2 = \<lparr>ncols = 2, rows = [[1, 1]]\<rparr>"
    "arr1 example_world (Suc 0) = [0, 0]" "arr1 example_world 5 = [0, 0]"
    "arr1 example_world 3 = [1]"
    "options example_world = \<lparr>printLevel = NONE, other_settings = 0\<rparr>"
    by (simp_all add: example_world_def module_init_def)
  have z: "zeros 2 = [0, 0]"
    by (simp add: zeros_def numeral_2_eq_2)
  have s: "shape0 (arr2 example_world 0) = 2" "shape0 (arr2 example_world 4) = 2"
    "shape0 (arr2 example_world 2) = 1"
    by (simp_all add: v shape0_def)
  have "\<exists>C lb_C ub_C.
       qp (qpoases_solve_qp solving_lib example_world 0 1 (Some 4) (Some 5) (Some 2) (Some 3)
             None) =
         [QProblem 2 (shape0 C), setOptions \<lparr>printLevel = NONE, other_settings = 0\<rparr>,
          init \<lparr>ncols = 2, rows = [[1, 0], [0, 1]]\<rparr> [0, 0] C None None
            (Some lb_C) (Some ub_C) 100,
          getPrimalSolution [0, 0]]
       \<and> shape0 C = 4 \<and> length lb_C = 3 \<and> length ub_C = 3
       \<and> drop (length lb_C) (rows C) = [[1, 1]]
       \<and> drop (length ub_C) (rows C) = [[1, 1]]"
    using both_bounds_shorter_than_block [OF h, of solving_lib None, unfolded s]
    by (simp add: v z)
  with h show ?thesis by blast
qed

subsection \<open>Dispatch and configuration of the solver\<close>

text \<open>
  C6. With neither \<open>G\<close> nor \<open>A\<close> the adapter builds no constraint block (no 2-D array is
  created) and calls the bounds-only variant, constructed with \<open>n\<close> alone. With \<open>G\<close> or
  \<open>A\<close> given, for arguments that exist and a call that raises nothing, it calls the
  general variant constructed with \<open>n\<close> and the number of rows of the block it passes.
  In both the variable bounds passed to \<^verbatim>\<open>init\<close> are absent.
\<close>

theorem dispatch_variant:
  "(qp (qpoases_solve_qp lib w P q None h None b iv) =
      [QProblemB (shape0 (arr2 w P)), setOptions (options w),
       init_B (arr2 w P) (arr1 w q) None None 100,
       getPrimalSolution (zeros (shape0 (arr2 w P)))]
    \<and> arr2 (after (qpoases_solve_qp lib w P q None h None b iv)) = arr2 w)
   \<and> ((is_not_None G \<or> is_not_None A) \<and> live w P \<and> live w q
        \<and> returned (qpoases_solve_qp lib w P q G h' A b' iv') = Inr r
      \<longrightarrow> (\<exists>C lb_C ub_C. qp (qpoases_solve_qp lib w P q G h' A b' iv') =
            [QProblem (shape0 (arr2 w P)) (shape0 C), setOptions (options w),
             init (arr2 w P) (arr1 w q) C None None lb_C ub_C 100,
             getPrimalSolution (zeros (shape0 (arr2 w P)))]))"
  using qp_constrained [of G A w P q lib h' b' iv' r]
  by (simp add: qp_neither arr2_neither)

theorem dispatch_variant_witness:
  "qp (qpoases_solve_qp solving_lib example_world 0 1 None None None None None) =
      [QProblemB 2, setOptions \<lparr>printLevel = NONE, other_settings = 0\<rparr>,
       init_B \<lparr>ncols = 2, rows = [[1, 0], [0, 1]]\<rparr> [0, 0] None None 100,
       getPrimalSolution [0, 0]]
   \<and> (is_not_None (None :: nat option) \<or> is_not_None (Some (2 :: nat)))
   \<and> live example_world 0 \<and> live example_world 1
   \<and> returned (qpoases_solve_qp solving_lib example_world 0 1 None None (Some 2) (Some 3)
         None) = Inr (Some 11)
   \<and> (\<exists>C lb_C ub_C.
        qp (qpoases_solve_qp solving_lib example_world 0 1 None None (Some 2) (Some 3) None) =
          [QProblem 2 (shape0 C), setOptions \<lparr>printLevel = NONE, other_settings = 0\<rparr>,
           init \<lparr>ncols = 2, rows = [[1, 0], [0, 1]]\<rparr> [0, 0] C None None lb_C ub_C 100,
           getPrimalSolution [0, 0]])"
proof -
  have h: "is_not_None (None :: nat option) \<or> is_not_None (Some (2 :: nat))"
    "live example_world 0" "live example_world 1"
    "returned (qpoases_solve_qp solving_lib example_world 0 1 None None (Some 2) (Some 3)
       None) = Inr (Some 11)"
    by (simp_all add: adapter_defs example_world_def module_init_def live_def
        split: prod.splits)
  have v: "arr2 example_world 0 = \<lparr>ncols = 2, rows = [[1, 0], [0, 1]]\<rparr>"
    "arr1 example_world (Suc 0) = [0, 0]"
    "options example_world = \<lparr>printLevel = NONE, other_settings = 0\<rparr>"
    by (simp_all add: example_world_def module_init_def)
  have z: "zeros 2 = [0, 0]"
    by (simp add: zeros_def numeral_2_eq_2)
  have s: "shape0 (arr2 example_world 0) = 2"
    by (simp add: v shape0_def)
  note t = dispatch_variant [where lib = solving_lib and w = example_world and P = 0
      and q = 1 and h = None and b = None and iv = None and G = None and A = "Some 2"
      and h' = None and b' = "Some 3" and iv' = None and r = "Some 11", unfolded s]
  have "qp (qpoases_solve_qp solving_lib example_world 0 1 None None None None None) =
      [QProblemB 2, setOptions \<lparr>printLevel = NONE, other_settings = 0\<rparr>,
       init_B \<lparr>ncols = 2, rows = [[1, 0], [0, 1]]\<rparr> [0, 0] None None 100,
       getPrimalSolution [0, 0]]"
    using t by (simp add: v z)
  moreover have "\<exists>C lb_C ub_C.
        qp (qpoases_solve_qp solving_lib example_world 0 1 None None (Some 2) (Some 3) None) =
          [QProblem 2 (shape0 C), setOptions \<lparr>printLevel = NONE, other_settings = 0\<rparr>,
           init \<lparr>ncols = 2, rows = [[1, 0], [0, 1]]\<rparr> [0, 0] C None None lb_C ub_C 100,
           getPrimalSolution [0, 0]]"
    using t h by (simp add: v z)
  ultimately show ?thesis using h by blast
qed

text \<open>
  C8. In every world the module can be in and for every call that raises nothing, the
  solver object is built by the call itself (its history starts with the constructor),
  it is configured with the module's \<^verbatim>\<open>options\<close>, whose print level is \<open>NONE\<close>, and
  the cell handed to \<^verbatim>\<open>init\<close> as the cap on working-set recalculations holds 100.
\<close>

theorem solver_fresh_silent_cap_100:
  assumes "reachable dflt w"
    and "returned (qpoases_solve_qp lib w P q G h A b iv) = Inr r"
  shows "printLevel (options w) = NONE
    \<and> ((\<exists>m Pv qv C lb_C ub_C buf. qp (qpoases_solve_qp lib w P q G h A b iv) =
            [QProblem (shape0 (arr2 w P)) m, setOptions (options w),
             init Pv qv C None None lb_C ub_C 100, getPrimalSolution buf])
       \<or> (\<exists>Pv qv buf. qp (qpoases_solve_qp lib w P q G h A b iv) =
            [QProblemB (shape0 (arr2 w P)), setOptions (options w),
             init_B Pv qv None None 100, getPrimalSolution buf]))"
  using reachable_options [OF assms(1)] qp_shape [OF assms(2)] by simp

theorem solver_fresh_silent_cap_100_witness:
  "reachable \<lparr>printLevel = Other_level 2, other_settings = 0\<rparr> example_world
   \<and> returned (qpoases_solve_qp solving_lib example_world 0 1 (Some 4) (Some 5) None None
         None) = Inr (Some 10)
   \<and> printLevel (options example_world) = NONE
   \<and> ((\<exists>m Pv qv C lb_C ub_C buf.
          qp (qpoases_solve_qp solving_lib example_world 0 1 (Some 4) (Some 5) None None None) =
            [QProblem (shape0 (arr2 example_world 0)) m, setOptions (options example_world),
             init Pv qv C None None lb_C ub_C 100, getPrimalSolution buf])
       \<or> (\<exists>Pv qv buf.
          qp (qpoases_solve_qp solving_lib example_world 0 1 (Some 4) (Some 5) None None None) =
            [QProblemB (shape0 (arr2 example_world 0)), setOptions (options example_world),
             init_B Pv qv None None 100, getPrimalSolution buf]))"
proof -
  have r: "reachable \<lparr>printLevel = Other_level 2, other_settings = 0\<rparr> example_world"
    unfolding example_world_def by (rule reachable.imported)
  have e: "returned (qpoases_solve_qp solving_lib example_world 0 1 (Some 4) (Some 5) None None
         None) = Inr (Some 10)"
    by (simp add: adapter_defs example_world_def module_init_def split: prod.splits)
  from r e solver_fresh_silent_cap_100 [OF r e] show ?thesis by blast
qed

subsection \<open>Warm-start values\<close>

text \<open>
  C7. A call with \<open>initvals\<close> emits the warm-start warning exactly once and is otherwise
  the call without \<open>initvals\<close>: the same array is returned, with the same content, the
  same calls reach the solver, and the same world is left.
\<close>

theorem initvals_ignored:
  "qpoases_solve_qp lib w P q G h A b (Some iv) =
     (qpoases_solve_qp lib w P q G h A b None)
       \<lparr>warned := Warm_start_ignored # warned (qpoases_solve_qp lib w P q G h A b None)\<rparr>
   \<and> count_list (warned (qpoases_solve_qp lib w P q G h A b (Some iv))) Warm_start_ignored = 1"
  by (simp add: adapter_defs split: prod.splits option.splits sum.splits)

theorem initvals_ignored_witness:
  "warned (qpoases_solve_qp solving_lib example_world 0 1 (Some 4) (Some 5) None None (Some 6))
     = [Warm_start_ignored]
   \<and> returned (qpoases_solve_qp solving_lib example_world 0 1 (Some 4) (Some 5) None None
        (Some 6))
     = returned (qpoases_solve_qp solving_lib example_world 0 1 (Some 4) (Some 5) None None None)
   \<and> after (qpoases_solve_qp solving_lib example_world 0 1 (Some 4) (Some 5) None None (Some 6))
     = after (qpoases_solve_qp solving_lib example_world 0 1 (Some 4) (Some 5) None None None)"
proof -
  have n: "warned (qpoases_solve_qp solving_lib example_world 0 (Suc 0) (Some 4) (Some 5)
      None None None) = []"
    by (simp add: adapter_defs solving_lib_def split: prod.splits)
  note t = initvals_ignored [of solving_lib example_world 0 1 "Some 4" "Some 5" None None 6]
  from t have "warned (qpoases_solve_qp solving_lib example_world 0 1 (Some 4) (Some 5) None
      None (Some 6)) = [Warm_start_ignored]"
    by (simp add: n)
  moreover from t have "returned (qpoases_solve_qp solving_lib example_world 0 1 (Some 4)
      (Some 5) None None (Some 6))
     = returned (qpoases_solve_qp solving_lib example_world 0 1 (Some 4) (Some 5) None None None)"
    by simp
  moreover from t have "after (qpoases_solve_qp solving_lib example_world 0 1 (Some 4)
      (Some 5) None None (Some 6))
     = after (qpoases_solve_qp solving_lib example_world 0 1 (Some 4) (Some 5) None None None)"
    by simp
  ultimately show ?thesis by blast
qed

subsection \<open>Return status of the solver\<close>

text \<open>
  C2. When \<^verbatim>\<open>init\<close> fails with a code other than \<^verbatim>\<open>MAX_NWSR_REACHED\<close>, the caller
  should get the no-solution signal that the docstring promises (\<^verbatim>\<open>None\<close>). The return
  value is compared with \<^verbatim>\<open>MAX_NWSR_REACHED\<close> only: for the infeasible inequalities
  \<open>x \<le> -1\<close>, \<open>-x \<le> -1\<close> and a library whose \<^verbatim>\<open>init\<close> reports a failure and whose
  \<^verbatim>\<open>getPrimalSolution\<close> leaves the buffer as it is, the call returns the new array at
  address 10, which holds the zeros it was created with, and warns of nothing.
\<close>

theorem failed_init_returns_vector:
  "fst (init_returns failing_lib
          (butlast (qp (qpoases_solve_qp failing_lib example_world 0 1 (Some 7) (Some 8)
             None None None)))) = Other_return 33
   \<and> returned (qpoases_solve_qp failing_lib example_world 0 1 (Some 7) (Some 8) None None None)
       = Inr (Some 10)
   \<and> arr1 (after (qpoases_solve_qp failing_lib example_world 0 1 (Some 7) (Some 8) None None
       None)) 10 = [0, 0]
   \<and> warned (qpoases_solve_qp failing_lib example_world 0 1 (Some 7) (Some 8) None None None)
       = []"
  by (simp add: adapter_defs example_world_def module_init_def failing_lib_def shape0_def
      zeros_def numeral_2_eq_2)

text \<open>
  C4. When the solver stops at the cap, one warning naming the number in the cell
  \<^verbatim>\<open>nb_wsr\<close> should be emitted in every configuration. Line 111 drops the return value of
  the bounds-only variant's \<^verbatim>\<open>init\<close>: with neither \<open>G\<close> nor \<open>A\<close> and a library that
  answers \<^verbatim>\<open>MAX_NWSR_REACHED\<close>, no warning is emitted, while the same library on the
  inequality-only problem makes line 107 warn. The primal solution is returned in both.
\<close>

theorem bounds_only_cap_not_warned:
  "fst (init_returns capped_lib
          (butlast (qp (qpoases_solve_qp capped_lib example_world 0 1 None None None None
             None)))) = MAX_NWSR_REACHED
   \<and> warned (qpoases_solve_qp capped_lib example_world 0 1 None None None None None) = []
   \<and> returned (qpoases_solve_qp capped_lib example_world 0 1 None None None None None)
       = Inr (Some 10)
   \<and> warned (qpoases_solve_qp capped_lib example_world 0 1 (Some 4) (Some 5) None None None)
       = [Max_WSR_reached 100]
   \<and> returned (qpoases_solve_qp capped_lib example_world 0 1 (Some 4) (Some 5) None None None)
       = Inr (Some 10)"
  by (simp add: adapter_defs example_world_def module_init_def capped_lib_def)

subsection \<open>Effects of a call\<close>

text \<open>
  C10. In every world the module can be in, a call changes no array that existed before
  it (in particular none of its arguments) and leaves the module's \<^verbatim>\<open>options\<close> as they
  were set at import: what remains of the call is its result, its warnings and new
  arrays. The options that this call and a call after it hand to the solver are the
  ones set at import.
\<close>

theorem call_frame:
  assumes "reachable dflt w"
  shows "(\<forall>x. live w x \<longrightarrow>
            arr2 (after (qpoases_solve_qp lib w P q G h A b iv)) x = arr2 w x
          \<and> arr1 (after (qpoases_solve_qp lib w P q G h A b iv)) x = arr1 w x
          \<and> iarr (after (qpoases_solve_qp lib w P q G h A b iv)) x = iarr w x)
     \<and> options (after (qpoases_solve_qp lib w P q G h A b iv)) = options w
     \<and> options w = dflt\<lparr>printLevel := NONE\<rparr>
     \<and> (\<forall>opt. setOptions opt \<in> set (qp (qpoases_solve_qp lib w P q G h A b iv))
            \<longrightarrow> opt = dflt\<lparr>printLevel := NONE\<rparr>)
     \<and> (\<forall>opt. setOptions opt \<in> set (qp (qpoases_solve_qp lib'
                  (after (qpoases_solve_qp lib w P q G h A b iv)) P q G h A b iv))
            \<longrightarrow> opt = dflt\<lparr>printLevel := NONE\<rparr>)"
proof -
  let ?out = "qpoases_solve_qp lib w P q G h A b iv"
  have o: "options w = dflt\<lparr>printLevel := NONE\<rparr>"
    using assms by (rule reachable_options)
  have o': "options (after ?out) = options w"
    by (rule options_after)
  have f: "\<forall>x. live w x \<longrightarrow> arr2 (after ?out) x = arr2 w x
          \<and> arr1 (after ?out) x = arr1 w x \<and> iarr (after ?out) x = iarr w x"
    using frame_after [of _ w lib P q G h A b iv] by (simp add: live_def)
  have s1: "\<forall>opt. setOptions opt \<in> set (qp ?out) \<longrightarrow> opt = dflt\<lparr>printLevel := NONE\<rparr>"
    using setOptions_in_qp [of _ lib w P q G h A b iv] o by auto
  have s2: "\<forall>opt. setOptions opt \<in> set (qp (qpoases_solve_qp lib' (after ?out) P q G h A b iv))
      \<longrightarrow> opt = dflt\<lparr>printLevel := NONE\<rparr>"
    using setOptions_in_qp [of _ lib' "after ?out" P q G h A b iv] o o' by auto
  from f o' o s1 s2 show ?thesis by blast
qed

theorem call_frame_witness:
  "reachable \<lparr>printLevel = Other_level 2, other_settings = 0\<rparr> example_world
   \<and> live example_world 0 \<and> live example_world 1 \<and> live example_world 4
   \<and> live example_world 5
   \<and> arr2 (after (qpoases_solve_qp solving_lib example_world 0 1 (Some 4) (Some 5) None None
        None)) 0 = \<lparr>ncols = 2, rows = [[1, 0], [0, 1]]\<rparr>
   \<and> arr1 (after (qpoases_solve_qp solving_lib example_world 0 1 (Some 4) (Some 5) None None
        None)) 1 = [0, 0]
   \<and> arr2 (after (qpoases_solve_qp solving_lib example_world 0 1 (Some 4) (Some 5) None None
        None)) 4 = \<lparr>ncols = 2, rows = [[- 1, 0], [0, - 1]]\<rparr>
   \<and> arr1 (after (qpoases_solve_qp solving_lib example_world 0 1 (Some 4) (Some 5) None None
        None)) 5 = [0, 0]
   \<and> options (after (qpoases_solve_qp solving_lib example_world 0 1 (Some 4) (Some 5) None
        None None)) = \<lparr>printLevel = NONE, other_settings = 0\<rparr>
   \<and> setOptions \<lparr>printLevel = NONE, other_settings = 0\<rparr>
        \<in> set (qp (qpoases_solve_qp solving_lib example_world 0 1 (Some 4) (Some 5) None None
             None))"
proof -
  let ?out = "qpoases_solve_qp solving_lib example_world 0 1 (Some 4) (Some 5) None None None"
  have r: "reachable \<lparr>printLevel = Other_level 2, other_settings = 0\<rparr> example_world"
    unfolding example_world_def by (rule reachable.imported)
  have l: "live example_world 0" "live example_world 1" "live example_world 4"
    "live example_world 5"
    by (simp_all add: example_world_def module_init_def live_def)
  have v: "arr2 example_world 0 = \<lparr>ncols = 2, rows = [[1, 0], [0, 1]]\<rparr>"
    "arr2 example_world 4 = \<lparr>ncols = 2, rows = [[- 1, 0], [0, - 1]]\<rparr>"
    "arr1 example_world 1 = [0, 0]" "arr1 example_world 5 = [0, 0]"
    "options example_world = \<lparr>printLevel = NONE, other_settings = 0\<rparr>"
    by (simp_all add: example_world_def module_init_def)
  have m: "setOptions (options example_world) \<in> set (qp ?out)"
    by (simp add: qp_inequality_only)
  note t = call_frame [OF r, of solving_lib 0 1 "Some 4" "Some 5" None None None solving_lib]
  note f = t [THEN conjunct1, rule_format]
  note o' = t [THEN conjunct2, THEN conjunct1]
  have a: "arr2 (after ?out) 0 = \<lparr>ncols = 2, rows = [[1, 0], [0, 1]]\<rparr>"
    using f [OF l(1)] v(1) by (simp only:)
  have b: "arr1 (after ?out) 1 = [0, 0]"
    using f [OF l(2)] v(3) by (simp only:)
  have c: "arr2 (after ?out) 4 = \<lparr>ncols = 2, rows = [[- 1, 0], [0, - 1]]\<rparr>"
    using f [OF l(3)] v(2) by (simp only:)
  have d: "arr1 (after ?out) 5 = [0, 0]"
    using f [OF l(4)] v(4) by (simp only:)
  have e: "options (after ?out) = \<lparr>printLevel = NONE, other_settings = 0\<rparr>"
    using o' v(5) by (simp only:)
  have g: "setOptions \<lparr>printLevel = NONE, other_settings = 0\<rparr> \<in> set (qp ?out)"
    using m v(5) by (simp only:)
  from r l a b c d e g show ?thesis by (intro conjI)
qed

end
